theory Spec2Isabelle
  imports Main
begin

section \<open>Values of the platform\<close>

text \<open>
  The service-worker cache library of audioserve-web: the range response builder
  (\<open>parseRange\<close>, \<open>buildResponse\<close>), the eviction policy (\<open>evictCache\<close>), the request
  queue of class \<open>AudioCache\<close> (\<open>has\<close>, \<open>add\<close>, \<open>delete\<close>) and the three handlers
  (\<open>AudioCache.handleRequest\<close>, \<open>AudioCache.handlePrefetch\<close>,
  \<open>NetworkFirstCache.handleRequest\<close>).

  A body is a list of bytes (a \<open>char\<close> of HOL is one byte). Header names are
  case-insensitive in the platform; the model keeps every name in lower case. The numbers
  of a \<open>Range\<close> header are JavaScript numbers, that is doubles, and are modelled as such
  (type \<open>number\<close> below). Counts of entries and the size limit are integers. Output on
  the console is not part of the model.
\<close>

type_synonym headers = "(string \<times> string) list"

record response =
  status :: nat
  resp_url :: string
  resp_headers :: headers
  body :: string

definition ok :: "response \<Rightarrow> bool" where
  "ok r = (200 \<le> status r \<and> status r \<le> 299)"

text \<open>\<open>Headers.get\<close>: \<open>None\<close> is JavaScript's \<open>null\<close>.\<close>

definition hget :: "headers \<Rightarrow> string \<Rightarrow> string option" where
  "hget hs name = map_of hs name"

text \<open>
  What the source can throw or reject with: the \<open>AbortError\<close> of a cancelled fetch, the
  \<open>TypeError\<close> of a failed fetch or of reading a field of \<open>null\<close>, a failure of the cache
  storage, and the \<open>Error\<close> that \<open>handlePrefetch\<close> builds from a response status.
\<close>

datatype err = AbortError | TypeError | StorageError | StatusError nat

section \<open>Numbers in strings\<close>

definition is_digit :: "char \<Rightarrow> bool" where
  "is_digit c = (48 \<le> (of_char c :: nat) \<and> (of_char c :: nat) \<le> 57)"

definition digit_val :: "char \<Rightarrow> nat" where
  "digit_val c = of_char c - 48"

definition digit_char :: "nat \<Rightarrow> char" where
  "digit_char d = char_of (48 + d)"

text \<open>The mathematical value of a string of decimal digits, and the decimal digits of a value.\<close>

definition decimal_value :: "string \<Rightarrow> nat" where
  "decimal_value ds = foldl (\<lambda>a c. 10 * a + digit_val c) 0 ds"

fun show_nat :: "nat \<Rightarrow> string" where
  "show_nat n = (if n < 10 then [digit_char n] else show_nat (n div 10) @ [digit_char (n mod 10)])"

declare show_nat.simps [simp del]

text \<open>
  A JavaScript number is a double. The numbers that \<open>buildResponse\<close> meets come from
  strings of digits, from the size of a blob and from adding or subtracting one, so they
  are non-negative integers that a double can hold, or infinity; the one negative value,
  \<open>size - 1\<close> for an empty body, is treated where it is printed.
\<close>

datatype number = Fin nat | Infinity

fun bitlen :: "nat \<Rightarrow> nat" where
  "bitlen n = (if n = 0 then 0 else Suc (bitlen (n div 2)))"

declare bitlen.simps [simp del]

text \<open>
  The double nearest to a natural number, ties to the even significand (IEEE 754
  round-to-nearest-even). Every integer up to \<open>2 ^ 53\<close> is a double. Above that the
  number keeps its 53 leading bits, and what rounds up to \<open>2 ^ 1024\<close> is infinity.
\<close>

definition round_double :: "nat \<Rightarrow> number" where
  "round_double n =
     (if n \<le> 2 ^ 53 then Fin n
      else
        (let e = bitlen n - 53;
             q = n div 2 ^ e;
             r = n mod 2 ^ e;
             half = 2 ^ (e - 1);
             q' = (if r > half \<or> (r = half \<and> odd q) then q + 1 else q);
             v = q' * 2 ^ e
         in if v \<ge> 2 ^ 1024 then Infinity else Fin v))"

text \<open>
  \<open>Number(s)\<close> on a string of decimal digits, as \<open>parseRange\<close> applies it: the double
  nearest to the value of the digits.
\<close>

definition Number_of_digits :: "string \<Rightarrow> number" where
  "Number_of_digits ds = round_double (decimal_value ds)"

text \<open>\<open>x + 1\<close> on a number.\<close>

definition plus_one :: "number \<Rightarrow> number" where
  "plus_one x = (case x of Infinity \<Rightarrow> Infinity | Fin n \<Rightarrow> round_double (n + 1))"

text \<open>
  The text of a number in a template literal (\<open>Number::toString\<close>). For a double \<open>x\<close> it
  takes the decimal number with the fewest significant digits that still reads back as
  \<open>x\<close>, the one closest to \<open>x\<close> when there are several and the one with the even last
  digit when two are equally close; \<open>candidates x k\<close> are the numbers of \<open>k\<close> significant
  digits next to \<open>x\<close> that read back as \<open>x\<close>, closest first. Up to \<open>2 ^ 53\<close> neighbouring
  doubles are at most one apart, so that number is \<open>x\<close> itself. A number of at most 21
  digits is printed in full, a longer one with an exponent.
\<close>

definition candidates :: "nat \<Rightarrow> nat \<Rightarrow> nat list" where
  "candidates x k =
     (let t = 10 ^ (length (show_nat x) - k);
          lo = (x div t) * t;
          hi = lo + t
      in filter (\<lambda>v. round_double v = Fin x)
           (if x - lo < hi - x \<or> (x - lo = hi - x \<and> even (x div t)) then [lo, hi]
            else [hi, lo]))"

definition shortest :: "nat \<Rightarrow> nat" where
  "shortest x =
     (case List.find (\<lambda>k. candidates x k \<noteq> []) [1..<Suc (length (show_nat x))] of
        None \<Rightarrow> x
      | Some k \<Rightarrow> (case candidates x k of [] \<Rightarrow> x | v # vs \<Rightarrow> v))"

definition toString :: "number \<Rightarrow> string" where
  "toString x =
     (case x of
        Infinity \<Rightarrow> ''Infinity''
      | Fin n \<Rightarrow>
          if n \<le> 2 ^ 53 then show_nat n
          else
            (let ds = show_nat (shortest n)
             in if length ds \<le> 21 then ds
                else
                  (case rev (dropWhile (\<lambda>c. c = CHR ''0'') (rev ds)) of
                     [] \<Rightarrow> ds
                   | d # ds' \<Rightarrow>
                       d # (if ds' = [] then [] else CHR ''.'' # ds')
                         @ ''e+'' @ show_nat (length ds - 1))))"

text \<open>The text of \<open>size - 1\<close>, which is \<open>-1\<close> for the size \<open>0\<close>.\<close>

definition minus_one_text :: "number \<Rightarrow> string" where
  "minus_one_text x =
     (case x of
        Infinity \<Rightarrow> ''Infinity''
      | Fin n \<Rightarrow> if n = 0 then ''-1'' else toString (round_double (n - 1)))"

section \<open>Range response builder\<close>

text \<open>
  \<^verbatim>\<open>const r = /^bytes=(\d+)-?(\d+)?/.exec(range);
  return [Number(r[1]), r[2] ? Number(r[2]) : undefined];\<close>
  The first group is greedy and everything after it is optional, so the match, when there
  is one, takes the longest run of digits after \<open>bytes=\<close>, then a dash if one follows,
  then the longest run of digits if one follows. Without a match \<open>r\<close> is \<open>null\<close> and
  \<open>r[1]\<close> throws a \<open>TypeError\<close>. A matched second group is a non-empty string, which is
  truthy, so the end is \<open>undefined\<close> exactly when the group did not take part.
\<close>

definition parseRange :: "string \<Rightarrow> err + (number \<times> number option)" where
  "parseRange rangeValue =
     (if take 6 rangeValue = ''bytes='' then
        (let rest = drop 6 rangeValue;
             g1 = takeWhile is_digit rest;
             rest1 = dropWhile is_digit rest
         in if g1 = [] then Inl TypeError
            else
              (let rest2 = (case rest1 of [] \<Rightarrow> [] | c # cs \<Rightarrow> if c = CHR ''-'' then cs else rest1);
                   g2 = takeWhile is_digit rest2
               in Inr (Number_of_digits g1,
                       if g2 = [] then None else Some (Number_of_digits g2))))
      else Inl TypeError)"

text \<open>
  \<open>Blob.slice(start, end)\<close>. Both arguments are \<open>[Clamp] long long\<close>: a number is
  clamped to at most \<open>2 ^ 53 - 1\<close> when it is converted. Then both ends are clamped to the
  size, and a start behind the end gives the empty blob. \<open>None\<close> is an \<open>undefined\<close> end.
\<close>

definition clamp_long_long :: "number \<Rightarrow> nat" where
  "clamp_long_long x = (case x of Infinity \<Rightarrow> 2 ^ 53 - 1 | Fin n \<Rightarrow> min n (2 ^ 53 - 1))"

definition blob_slice :: "string \<Rightarrow> number \<Rightarrow> number option \<Rightarrow> string" where
  "blob_slice b start endPos =
     (let size = length b;
          relativeStart = min (clamp_long_long start) size;
          relativeEnd = (case endPos of None \<Rightarrow> size | Some e \<Rightarrow> min (clamp_long_long e) size)
      in take (relativeEnd - relativeStart) (drop relativeStart b))"

text \<open>
  A number is truthy unless it is \<open>undefined\<close> or \<open>0\<close>: the source tests the end with
  \<open>end ? ... : ...\<close>.
\<close>

definition truthy_number :: "number option \<Rightarrow> bool" where
  "truthy_number e =
     (case e of None \<Rightarrow> False | Some Infinity \<Rightarrow> True | Some (Fin n) \<Rightarrow> n \<noteq> 0)"

text \<open>
  A string is truthy unless it is \<open>null\<close> or empty.
\<close>

definition truthy_string :: "string option \<Rightarrow> bool" where
  "truthy_string s = (case s of None \<Rightarrow> False | Some t \<Rightarrow> t \<noteq> [])"

text \<open>A header value that is \<open>null\<close> is written as the text \<open>null\<close>.\<close>

definition header_text :: "string option \<Rightarrow> string" where
  "header_text v = (case v of None \<Rightarrow> ''null'' | Some t \<Rightarrow> t)"

text \<open>
  \<open>buildResponse\<close>. The promise rejects (\<open>Inl\<close>) when \<open>parseRange\<close> throws. A response
  made by \<open>new Response\<close> has the empty URL. \<open>body.size\<close> is the length of the body as a
  number.
\<close>

definition buildResponse :: "response \<Rightarrow> string option \<Rightarrow> err + response" where
  "buildResponse originalResponse rangeValue =
     (if truthy_string rangeValue then
        (let b = body originalResponse;
             size = round_double (length b)
         in case parseRange (the rangeValue) of
              Inl e \<Rightarrow> Inl e
            | Inr (start, endPos) \<Rightarrow>
                Inr \<lparr> status = 206,
                      resp_url = [],
                      resp_headers =
                        [(''content-range'',
                          ''bytes '' @ toString start @ ''-''
                            @ (if truthy_number endPos then toString (the endPos)
                               else minus_one_text size)
                            @ ''/'' @ toString size),
                         (''content-type'',
                          header_text (hget (resp_headers originalResponse) ''content-type''))],
                      body = blob_slice b start
                               (if truthy_number endPos then Some (plus_one (the endPos))
                                else None) \<rparr>)
      else Inr originalResponse)"

section \<open>Cache store and eviction policy\<close>

text \<open>
  A \<open>Cache\<close> is a list of entries in insertion order, oldest first, with one entry per
  key. \<open>cache.keys()\<close> lists the keys in that order, \<open>cache.delete\<close> answers whether an
  entry was there, and \<open>cache.put\<close> replaces the entry of the key and puts the new one
  last.
\<close>

type_synonym ('k, 'v) cache = "('k \<times> 'v) list"

definition cache_keys :: "('k, 'v) cache \<Rightarrow> 'k list" where
  "cache_keys c = map fst c"

definition cache_match :: "('k, 'v) cache \<Rightarrow> 'k \<Rightarrow> 'v option" where
  "cache_match c k = map_of c k"

definition cache_delete :: "'k \<Rightarrow> ('k, 'v) cache \<Rightarrow> bool \<times> ('k, 'v) cache" where
  "cache_delete k c = (k \<in> set (map fst c), filter (\<lambda>e. fst e \<noteq> k) c)"

definition cache_put :: "'k \<Rightarrow> 'v \<Rightarrow> ('k, 'v) cache \<Rightarrow> ('k, 'v) cache" where
  "cache_put k v c = filter (\<lambda>e. fst e \<noteq> k) c @ [(k, v)]"

text \<open>
  The loop of \<open>evictCache\<close> over the reversed delete list. The callback \<open>onDelete\<close> acts on
  a state \<open>'w\<close> of its own; \<open>None\<close> is a callback that was not given
  (\<open>if (onDelete) onDelete(key)\<close>).
\<close>

fun evict_loop ::
  "'k list \<Rightarrow> ('k \<Rightarrow> 'w \<Rightarrow> 'w) option \<Rightarrow> ('k, 'v) cache \<times> 'w \<Rightarrow> ('k, 'v) cache \<times> 'w" where
  "evict_loop [] onDelete (c, w) = (c, w)"
| "evict_loop (key # keys) onDelete (c, w) =
     (let (deleted, c') = cache_delete key c
      in evict_loop keys onDelete
           (c', if deleted then (case onDelete of None \<Rightarrow> w | Some f \<Rightarrow> f key w) else w))"

definition evictCache ::
  "('k, 'v) cache \<Rightarrow> int \<Rightarrow> ('k \<Rightarrow> 'w \<Rightarrow> 'w) option \<Rightarrow> 'w \<Rightarrow> ('k, 'v) cache \<times> 'w" where
  "evictCache c sizeLimit onDelete w =
     (let keys = cache_keys c;
          toDelete = int (length keys) - sizeLimit
      in if toDelete > 0 then
           (let deleteList = take (nat toDelete) keys
            in evict_loop (rev deleteList) onDelete (c, w))
         else (c, w))"

text \<open>A callback that records the keys it is called with, in the order of the calls.\<close>

definition record_call :: "'k \<Rightarrow> 'k list \<Rightarrow> 'k list" where
  "record_call key calls = calls @ [key]"

section \<open>Request queue\<close>

text \<open>
  An \<open>AbortController\<close> is an object shared by reference: the model names each one by a
  number. \<open>isDirect\<close> is an optional argument of \<open>add\<close> that the constructor of the item
  stores as given, so it is \<open>None\<close> (JavaScript's \<open>undefined\<close>) when it was left out.
\<close>

record FetchQueueItem =
  url :: string
  abort :: nat
  isDirect :: "bool option"
  folderPosition :: "int option"

datatype CacheMessageKind = ActualCached | PrefetchCached | Skipped | Deleted | PrefetchError

record CacheMessage =
  kind :: CacheMessageKind
  cachedUrl :: string
  originalUrl :: string
  error :: "err option"

datatype credentials = SameOrigin | Include

datatype cache_mode = DefaultMode | NoCache

record request =
  req_url :: string
  req_headers :: headers
  req_credentials :: credentials
  req_cache :: cache_mode

text \<open>A call of \<open>fetch\<close>: the request and the controller whose signal it is bound to.\<close>

record fetch_call =
  call_request :: request
  call_signal :: "nat option"

text \<open>
  What one run of a handler sees and changes: the queue of the \<open>AudioCache\<close> object, the
  named cache (\<open>None\<close> when \<open>caches.open\<close> rejects), the calls of \<open>abort()\<close> made so far
  (by controller, in order), the number of controllers created, the messages handed to
  \<open>broadcastMessage\<close> and the calls of \<open>fetch\<close> issued.
\<close>

record world =
  queue :: "FetchQueueItem list"
  store :: "(string, response) cache option"
  aborted :: "nat list"
  controllers :: nat
  broadcasts :: "CacheMessage list"
  fetches :: "fetch_call list"

text \<open>
  What the handlers take from outside this file: \<open>removeQuery\<close> (imported from the
  package's index, which strips the query of a URL), \<open>Number\<close> on the text of the
  \<open>X-Folder-Position\<close> header (\<open>None\<close> is \<open>NaN\<close>; the position is only carried
  along, and the model keeps whole positions), the outcome of each \<open>fetch\<close>
  (\<open>Inl\<close> a rejection), whether \<open>cache.put\<close> of a key and a response rejects, and the text
  that \<open>"NetworkFirst Cache Error: " + e\<close> appends for an error.
\<close>

record env =
  removeQuery :: "string \<Rightarrow> string"
  toNumber :: "string \<Rightarrow> int option"
  fetch :: "fetch_call \<Rightarrow> err + response"
  putError :: "string \<Rightarrow> response \<Rightarrow> err option"
  errorText :: "err \<Rightarrow> string"

text \<open>\<open>Array.findIndex\<close>: the index of the first element that satisfies \<open>p\<close>, or \<open>-1\<close>.\<close>

fun findIndex :: "('a \<Rightarrow> bool) \<Rightarrow> 'a list \<Rightarrow> int" where
  "findIndex p [] = - 1"
| "findIndex p (x # xs) =
     (if p x then 0 else (let r = findIndex p xs in if r < 0 then - 1 else r + 1))"

definition truthy_bool :: "bool option \<Rightarrow> bool" where
  "truthy_bool b = (b = Some True)"

definition has :: "string \<Rightarrow> world \<Rightarrow> bool" where
  "has u w = (findIndex (\<lambda>i. url i = u) (queue w) \<ge> 0)"

text \<open>
  \<open>add\<close>: for a direct request, \<open>abort()\<close> is called on the controller of every item of
  the queue whose \<open>isDirect\<close> is truthy, in the order of the queue; then the new item is
  pushed.
\<close>

definition add :: "string \<Rightarrow> nat \<Rightarrow> bool option \<Rightarrow> int option \<Rightarrow> world \<Rightarrow> world" where
  "add u a direct pos w =
     (let w1 = (if truthy_bool direct
                then w\<lparr>aborted := aborted w
                        @ map abort (filter (\<lambda>i. truthy_bool (isDirect i)) (queue w))\<rparr>
                else w)
      in w1\<lparr>queue := queue w1
              @ [\<lparr>url = u, abort = a, isDirect = direct, folderPosition = pos\<rparr>]\<rparr>)"

text \<open>\<open>delete\<close>: \<open>splice(idx, 1)\<close> at the index of the first item with the URL, if any.\<close>

definition delete :: "string \<Rightarrow> world \<Rightarrow> world" where
  "delete u w =
     (let idx = findIndex (\<lambda>i. url i = u) (queue w)
      in if idx \<ge> 0
         then w\<lparr>queue := take (nat idx) (queue w) @ drop (nat idx + 1) (queue w)\<rparr>
         else w)"

definition newAbortController :: "world \<Rightarrow> nat \<times> world" where
  "newAbortController w = (controllers w, w\<lparr>controllers := Suc (controllers w)\<rparr>)"

definition broadcastMessage :: "CacheMessage \<Rightarrow> world \<Rightarrow> world" where
  "broadcastMessage m w = w\<lparr>broadcasts := broadcasts w @ [m]\<rparr>"

definition issue :: "fetch_call \<Rightarrow> world \<Rightarrow> world" where
  "issue c w = w\<lparr>fetches := fetches w @ [c]\<rparr>"

section \<open>Audio cache controller\<close>

text \<open>
  \<open>cloneRequest\<close> keeps the URL only and includes credentials; the \<open>Range\<close> header that
  \<open>handleRequest\<close> then deletes from the clone is deleted by \<open>hdelete\<close>.
\<close>

definition cloneRequest :: "request \<Rightarrow> request" where
  "cloneRequest req =
     \<lparr>req_url = req_url req, req_headers = [], req_credentials = Include,
      req_cache = DefaultMode\<rparr>"

definition hdelete :: "string \<Rightarrow> request \<Rightarrow> request" where
  "hdelete name req = req\<lparr>req_headers := filter (\<lambda>h. fst h \<noteq> name) (req_headers req)\<rparr>"

text \<open>The response of the outermost \<open>catch\<close> of \<open>handleRequest\<close>.\<close>

definition sw_error_response :: response where
  "sw_error_response =
     \<lparr>status = 555, resp_url = [],
      resp_headers = [(''content-type'', ''text/plain;charset=UTF-8'')],
      body = ''Service Worker Cache Error''\<rparr>"

text \<open>The callback that both handlers give to \<open>evictCache\<close>.\<close>

definition onDeleted :: "string \<Rightarrow> world \<Rightarrow> world" where
  "onDeleted key w =
     broadcastMessage \<lparr>kind = Deleted, cachedUrl = key, originalUrl = key, error = None\<rparr> w"

text \<open>
  What follows a \<open>cache.put\<close> that succeeded, in both handlers: the entry is in the
  opened cache \<open>c\<close>, the message is broadcast, and the cache is evicted down to the size
  limit.
\<close>

definition stored ::
  "int \<Rightarrow> (string, response) cache \<Rightarrow> string \<Rightarrow> response \<Rightarrow> CacheMessage \<Rightarrow> world \<Rightarrow> world" where
  "stored sizeLimit c key resp msg w =
     (let w1 = broadcastMessage msg (w\<lparr>store := Some (cache_put key resp c)\<rparr>);
          (c', w2) = evictCache (cache_put key resp c) sizeLimit (Some onDeleted) w1
      in w2\<lparr>store := Some c'\<rparr>)"

text \<open>
  \<open>handleRequest\<close> of \<open>AudioCache\<close>, run until every promise it started has settled. The
  result is the response given to \<open>respondWith\<close> and the world afterwards. The chain
  \<^verbatim>\<open>cache.put(..).then(..).catch(logFetchError).then(() => this.delete(keyReq))\<close>
  hangs on the callback of \<open>fetch(..).then\<close>, which does not run when the fetch rejects;
  the rejection goes to the outermost \<open>catch\<close>.
\<close>

definition handleRequest :: "env \<Rightarrow> int \<Rightarrow> request \<Rightarrow> world \<Rightarrow> response \<times> world" where
  "handleRequest e sizeLimit req w =
     (let rangeHeader = hget (req_headers req) ''range''
      in case store w of
           None \<Rightarrow> (sw_error_response, w)
         | Some c \<Rightarrow>
             (case cache_match c (req_url req) of
                Some resp \<Rightarrow>
                  (case buildResponse resp rangeHeader of
                     Inl x \<Rightarrow> (sw_error_response, w)
                   | Inr r \<Rightarrow> (r, w))
              | None \<Rightarrow>
                  (let keyReq = removeQuery e (req_url req)
                   in if has keyReq w then
                        (let call = \<lparr>call_request = req, call_signal = None\<rparr>;
                             w1 = issue call w
                         in case fetch e call of
                              Inl x \<Rightarrow> (sw_error_response, w1)
                            | Inr resp \<Rightarrow> (resp, w1))
                      else
                        (let posHeader = hget (req_headers req) ''x-folder-position'';
                             folderPosition =
                               (if truthy_string posHeader then toNumber e (the posHeader)
                                else None);
                             req' = cloneRequest req;
                             (abort, w1) = newAbortController w;
                             w2 = add keyReq abort (Some True) folderPosition w1;
                             req'' = hdelete ''range'' req';
                             call = \<lparr>call_request = req'', call_signal = Some abort\<rparr>;
                             w3 = issue call w2
                         in case fetch e call of
                              Inl x \<Rightarrow> (sw_error_response, w3)
                            | Inr resp \<Rightarrow>
                                (resp,
                                 delete keyReq
                                   (case putError e keyReq resp of
                                      Some x \<Rightarrow> w3
                                    | None \<Rightarrow>
                                        stored sizeLimit c keyReq resp
                                          \<lparr>kind = ActualCached, cachedUrl = keyReq,
                                           originalUrl = resp_url resp, error = None\<rparr>
                                          w3))))))"

text \<open>The message of a prefetch: \<open>msg.data.url\<close> and \<open>msg.data.folderPosition\<close>.\<close>

record prefetch_request =
  pf_url :: string
  pf_folderPosition :: "int option"

text \<open>
  \<open>handlePrefetch\<close>, run until the promise given to \<open>waitUntil\<close> has settled. Every
  rejection of the \<open>then\<close> callback (the fetch, \<open>caches.open\<close>, \<open>cache.put\<close>) reaches the
  \<open>catch\<close>, which reports \<open>msg.data.url\<close> as the original URL.
\<close>

definition handlePrefetch :: "env \<Rightarrow> int \<Rightarrow> prefetch_request \<Rightarrow> world \<Rightarrow> world" where
  "handlePrefetch e sizeLimit msg w =
     (let keyUrl = removeQuery e (pf_url msg)
      in if has keyUrl w then
           broadcastMessage
             \<lparr>kind = Skipped, cachedUrl = keyUrl, originalUrl = pf_url msg, error = None\<rparr> w
         else
           (let (abort, w1) = newAbortController w;
                w2 = add keyUrl abort (Some False) (pf_folderPosition msg) w1;
                call = \<lparr>call_request =
                          \<lparr>req_url = pf_url msg, req_headers = [], req_credentials = Include,
                           req_cache = NoCache\<rparr>,
                        call_signal = Some abort\<rparr>;
                w3 = issue call w2;
                failed = (\<lambda>x. broadcastMessage
                            \<lparr>kind = PrefetchError, cachedUrl = keyUrl,
                             originalUrl = pf_url msg, error = Some x\<rparr> w3)
            in delete keyUrl
                 (case fetch e call of
                    Inl x \<Rightarrow> failed x
                  | Inr resp \<Rightarrow>
                      if ok resp then
                        (case store w3 of
                           None \<Rightarrow> failed StorageError
                         | Some c \<Rightarrow>
                             (case putError e keyUrl resp of
                                Some x \<Rightarrow> failed x
                              | None \<Rightarrow>
                                  stored sizeLimit c keyUrl resp
                                    \<lparr>kind = PrefetchCached, cachedUrl = keyUrl,
                                     originalUrl = resp_url resp, error = None\<rparr>
                                    w3))
                      else
                        broadcastMessage
                          \<lparr>kind = PrefetchError, cachedUrl = keyUrl,
                           originalUrl = resp_url resp,
                           error = Some (StatusError (status resp))\<rparr> w3)))"

section \<open>Network-first cache controller\<close>

record NetworkFirstCache =
  isEnabled :: bool
  nf_sizeLimit :: int

record nf_world =
  nf_store :: "(string, response) cache option"
  nf_fetches :: "fetch_call list"

text \<open>What the first \<open>catch\<close> receives: an error, or the response that was thrown.\<close>

datatype thrown = Error err | Thrown response

definition errorResponse :: "env \<Rightarrow> thrown \<Rightarrow> response" where
  "errorResponse e t =
     (case t of
        Thrown r \<Rightarrow> r
      | Error x \<Rightarrow>
          \<lparr>status = 555, resp_url = [],
           resp_headers = [(''content-type'', ''text/plain;charset=UTF-8'')],
           body = ''NetworkFirst Cache Error: '' @ errorText e x\<rparr>)"

text \<open>The \<open>catch\<close> of the fetch: the cached match, or the error response.\<close>

definition fallback :: "env \<Rightarrow> request \<Rightarrow> thrown \<Rightarrow> nf_world \<Rightarrow> response" where
  "fallback e req t w =
     (case nf_store w of
        None \<Rightarrow> errorResponse e t
      | Some c \<Rightarrow>
          (case cache_match c (req_url req) of
             Some resp \<Rightarrow> resp
           | None \<Rightarrow> errorResponse e t))"

text \<open>
  \<open>handleRequest\<close> of \<open>NetworkFirstCache\<close>: \<open>None\<close> when the controller is disabled and
  \<open>respondWith\<close> is not called. The callback it gives to \<open>evictCache\<close> writes to the
  console only. A \<open>cache.put\<close> that rejects leaves the cache as it was.
\<close>

definition nf_handleRequest ::
  "env \<Rightarrow> NetworkFirstCache \<Rightarrow> request \<Rightarrow> nf_world \<Rightarrow> response option \<times> nf_world" where
  "nf_handleRequest e this req w =
     (if \<not> isEnabled this then (None, w)
      else
        (let call = \<lparr>call_request = req, call_signal = None\<rparr>;
             w1 = w\<lparr>nf_fetches := nf_fetches w @ [call]\<rparr>
         in case fetch e call of
              Inl x \<Rightarrow> (Some (fallback e req (Error x) w1), w1)
            | Inr response \<Rightarrow>
                if status response \<noteq> 200 then (Some (fallback e req (Thrown response) w1), w1)
                else
                  (case nf_store w1 of
                     None \<Rightarrow> (Some (fallback e req (Error StorageError) w1), w1)
                   | Some c \<Rightarrow>
                       (Some response,
                        (case putError e (req_url req) response of
                           Some x \<Rightarrow> w1
                         | None \<Rightarrow>
                             w1\<lparr>nf_store :=
                                   Some (fst (evictCache (cache_put (req_url req) response c)
                                                (nf_sizeLimit this) (Some (\<lambda>key u. u)) ()))\<rparr>)))))"

definition enable :: "NetworkFirstCache \<Rightarrow> NetworkFirstCache" where
  "enable this = this\<lparr>isEnabled := True\<rparr>"

definition disable :: "NetworkFirstCache \<Rightarrow> NetworkFirstCache" where
  "disable this = this\<lparr>isEnabled := False\<rparr>"

text \<open>
  The entry that \<open>cache.match\<close> finds for a request in the store of the controller, if the
  store opens and holds one.
\<close>

definition cached_entry :: "nf_world \<Rightarrow> request \<Rightarrow> response option" where
  "cached_entry w req =
     (case nf_store w of None \<Rightarrow> None | Some c \<Rightarrow> cache_match c (req_url req))"

section \<open>Values for the examples\<close>

text \<open>
  Modelled from the spec: \<open>removeQuery\<close> is imported from the package's index, which is
  not among the sources; the spec describes it as the normalisation that strips the query
  parameters of a URL. The examples use this version of it, which cuts the URL at the first
  question mark; the general theorems take \<open>removeQuery\<close> from the environment and hold
  for every function.
\<close>

definition strip_query :: "string \<Rightarrow> string" where
  "strip_query u = takeWhile (\<lambda>c. c \<noteq> CHR ''?'') u"

definition sample_audio :: response where
  "sample_audio =
     \<lparr>status = 200, resp_url = ''http://h/a.mp3'',
      resp_headers = [(''content-type'', ''audio/mpeg'')], body = ''abcdef''\<rparr>"

definition not_found :: response where
  "not_found =
     \<lparr>status = 404, resp_url = ''http://h/a.mp3'',
      resp_headers = [(''content-type'', ''text/plain'')], body = ''gone''\<rparr>"

definition sample_env :: "(err + response) \<Rightarrow> env" where
  "sample_env outcome =
     \<lparr>removeQuery = strip_query, toNumber = (\<lambda>s. None), fetch = (\<lambda>c. outcome),
      putError = (\<lambda>k r. None), errorText = (\<lambda>x. ''failed'')\<rparr>"

definition sample_request :: request where
  "sample_request =
     \<lparr>req_url = ''http://h/a.mp3?t=1'', req_headers = [(''range'', ''bytes=0-'')],
      req_credentials = SameOrigin, req_cache = DefaultMode\<rparr>"

definition idle :: world where
  "idle = \<lparr>queue = [], store = Some [], aborted = [], controllers = 0, broadcasts = [],
           fetches = []\<rparr>"

definition busy :: world where
  "busy =
     \<lparr>queue =
        [\<lparr>url = ''http://h/a.mp3'', abort = 1, isDirect = Some True, folderPosition = None\<rparr>,
         \<lparr>url = ''http://h/b.mp3'', abort = 2, isDirect = Some False, folderPosition = Some 2\<rparr>,
         \<lparr>url = ''http://h/c.mp3'', abort = 3, isDirect = Some True, folderPosition = None\<rparr>,
         \<lparr>url = ''http://h/d.mp3'', abort = 4, isDirect = None, folderPosition = None\<rparr>],
      store = Some [(''http://h/x.mp3'', sample_audio)], aborted = [], controllers = 5,
      broadcasts = [], fetches = []\<rparr>"

definition nf_idle :: nf_world where
  "nf_idle = \<lparr>nf_store = Some [], nf_fetches = []\<rparr>"

definition nf_warm :: nf_world where
  "nf_warm = \<lparr>nf_store = Some [(''http://h/a.mp3?t=1'', sample_audio)], nf_fetches = []\<rparr>"

definition nf_default :: NetworkFirstCache where
  "nf_default = \<lparr>isEnabled = True, nf_sizeLimit = 1000\<rparr>"

section \<open>Decimal text and the range header\<close>

lemma digit_char_is_digit: "d < 10 \<Longrightarrow> is_digit (digit_char d)"
  by (simp add: is_digit_def digit_char_def)

lemma digit_val_digit_char: "d < 10 \<Longrightarrow> digit_val (digit_char d) = d"
  by (simp add: digit_val_def digit_char_def)

lemma show_nat_digits: "\<forall>c \<in> set (show_nat n). is_digit c"
proof (induction n rule: show_nat.induct)
  case (1 n)
  show ?case
  proof (cases "n < 10")
    case True
    then show ?thesis by (subst show_nat.simps) (simp add: digit_char_is_digit)
  next
    case False
    with 1 show ?thesis by (subst show_nat.simps) (simp add: digit_char_is_digit)
  qed
qed

lemma show_nat_nonempty: "show_nat n \<noteq> []"
  by (subst show_nat.simps) simp

lemma decimal_value_snoc: "decimal_value (ds @ [c]) = 10 * decimal_value ds + digit_val c"
  by (simp add: decimal_value_def)

lemma decimal_value_show_nat: "decimal_value (show_nat n) = n"
proof (induction n rule: show_nat.induct)
  case (1 n)
  show ?case
  proof (cases "n < 10")
    case True
    then show ?thesis
      by (subst show_nat.simps) (simp add: decimal_value_def digit_val_digit_char)
  next
    case False
    with 1 show ?thesis
      by (subst show_nat.simps) (simp add: decimal_value_snoc digit_val_digit_char)
  qed
qed

lemma round_double_exact: "n \<le> 2 ^ 53 \<Longrightarrow> round_double n = Fin n"
  by (simp add: round_double_def)

lemma Number_of_digits_show_nat: "n < 2 ^ 53 \<Longrightarrow> Number_of_digits (show_nat n) = Fin n"
  by (simp add: Number_of_digits_def decimal_value_show_nat round_double_def)

lemma toString_exact: "n \<le> 2 ^ 53 \<Longrightarrow> toString (Fin n) = show_nat n"
  by (simp add: toString_def)

lemma plus_one_exact: "n < 2 ^ 53 \<Longrightarrow> plus_one (Fin n) = Fin (n + 1)"
  by (simp add: plus_one_def round_double_def)

text \<open>
  Beyond \<open>2 ^ 53\<close> the numbers are rounded: \<open>9007199254740993\<close> is read as
  \<open>9007199254740992\<close>, adding one to \<open>2 ^ 53\<close> changes nothing, and \<open>10 ^ 21\<close> is printed
  with an exponent.
\<close>

lemma bitlen_numeral:
  "bitlen 0 = 0" "bitlen (Suc 0) = Suc 0" "bitlen (numeral k) = Suc (bitlen (numeral k div 2))"
  by (simp_all add: bitlen.simps)

lemma digit_chars:
  "digit_char 0 = CHR ''0''" "digit_char (Suc 0) = CHR ''1''" "digit_char 2 = CHR ''2''"
  "digit_char 3 = CHR ''3''" "digit_char 4 = CHR ''4''" "digit_char 5 = CHR ''5''"
  "digit_char 6 = CHR ''6''" "digit_char 7 = CHR ''7''" "digit_char 8 = CHR ''8''"
  "digit_char 9 = CHR ''9''"
  by code_simp+

lemma show_nat_numeral:
  "show_nat 0 = ''0''" "show_nat (Suc 0) = ''1''"
  "show_nat (numeral k) =
     (if (numeral k :: nat) < 10 then [digit_char (numeral k)]
      else show_nat (numeral k div 10) @ [digit_char (numeral k mod 10)])"
  by (simp_all add: show_nat.simps [of 0] show_nat.simps [of "Suc 0"] show_nat.simps [of "numeral k"]
      digit_chars)

lemma Number_rounds_to_even: "Number_of_digits ''9007199254740993'' = Fin 9007199254740992"
  by (simp add: Number_of_digits_def decimal_value_def digit_val_def round_double_def Let_def
      bitlen_numeral)

lemma Number_of_sextillion:
  "Number_of_digits ''1000000000000000000000'' = Fin 1000000000000000000000"
  by (simp add: Number_of_digits_def decimal_value_def digit_val_def round_double_def Let_def
      bitlen_numeral)

lemma Number_small: "Number_of_digits ''0'' = Fin 0" "Number_of_digits ''5'' = Fin 5"
  by (simp_all add: Number_of_digits_def decimal_value_def digit_val_def round_double_def)

lemma show_nat_sextillion: "show_nat 1000000000000000000000 = ''1000000000000000000000''"
  by (simp add: show_nat_numeral digit_chars)

lemma round_double_sextillion:
  "round_double 1000000000000000000000 = Fin 1000000000000000000000"
  "round_double 2000000000000000000000 = Fin 2000000000000000000000"
  by (simp_all add: round_double_def Let_def bitlen_numeral)

lemma candidates_sextillion:
  "candidates 1000000000000000000000 (Suc 0) = [1000000000000000000000]"
proof -
  have l: "length ''1000000000000000000000'' - Suc 0 = 21"
    by simp
  have p: "(10::nat) ^ 21 = 1000000000000000000000"
    by simp
  show ?thesis
    unfolding candidates_def show_nat_sextillion l p Let_def
    by (simp add: round_double_sextillion)
qed

lemma shortest_sextillion: "shortest 1000000000000000000000 = 1000000000000000000000"
  unfolding shortest_def show_nat_sextillion
  by (simp add: candidates_sextillion upt_conv_Cons)

lemma show_nat_21: "show_nat (Suc (Suc (Suc (Suc (Suc (Suc (Suc (Suc (Suc (Suc (Suc (Suc (Suc (Suc (Suc (Suc (Suc (Suc (Suc (Suc (Suc (0)))))))))))))))))))))) = ''21''"
  by code_simp

lemma toString_sextillion: "toString (Fin 1000000000000000000000) = ''1e+21''"
  by (simp add: toString_def shortest_sextillion show_nat_sextillion show_nat_21)

lemma toString_small:
  "toString (Fin 0) = ''0''" "toString (Fin 5) = ''5''" "toString (Fin 6) = ''6''"
  "toString (Fin 9007199254740992) = ''9007199254740992''"
  by (simp_all add: toString_def show_nat_numeral digit_chars)

lemma plus_one_at_limit: "plus_one (Fin 9007199254740992) = Fin 9007199254740992"
  by (simp add: plus_one_def round_double_def Let_def bitlen_numeral)

lemma not_digit_dash: "\<not> is_digit CHR ''-''"
  by (simp add: is_digit_def)

lemma takeWhile_show_nat: "\<not> is_digit c \<Longrightarrow> takeWhile is_digit (show_nat n @ c # rest) = show_nat n"
  using show_nat_digits [of n] by (simp add: takeWhile_tail)

lemma dropWhile_show_nat: "\<not> is_digit c \<Longrightarrow> dropWhile is_digit (show_nat n @ c # rest) = c # rest"
  using show_nat_digits [of n] by (simp add: dropWhile_append2)

lemma takeWhile_show_nat_end: "takeWhile is_digit (show_nat n) = show_nat n"
  using show_nat_digits [of n] by (simp add: takeWhile_eq_all_conv)

lemma parseRange_both:
  assumes "s < 2 ^ 53" and "e < 2 ^ 53"
  shows "parseRange (''bytes='' @ show_nat s @ ''-'' @ show_nat e) = Inr (Fin s, Some (Fin e))"
  using assms
  by (simp add: parseRange_def takeWhile_show_nat dropWhile_show_nat not_digit_dash
      takeWhile_show_nat_end show_nat_nonempty Number_of_digits_show_nat Let_def)

lemma parseRange_open:
  assumes "s < 2 ^ 53"
  shows "parseRange (''bytes='' @ show_nat s @ ''-'') = Inr (Fin s, None)"
  using assms
  by (simp add: parseRange_def takeWhile_show_nat dropWhile_show_nat not_digit_dash
      show_nat_nonempty Number_of_digits_show_nat Let_def)

lemma blob_slice_closed:
  assumes "length b < 2 ^ 53"
  shows "blob_slice b (Fin s) (Some (Fin e)) = take (e - s) (drop s b)"
  using assms by (auto simp: blob_slice_def clamp_long_long_def Let_def min_def)

lemma blob_slice_open:
  assumes "length b < 2 ^ 53"
  shows "blob_slice b (Fin s) None = drop s b"
  using assms by (auto simp: blob_slice_def clamp_long_long_def Let_def min_def)

section \<open>Properties of the eviction policy\<close>

lemma evict_loop_distinct:
  "distinct ks \<Longrightarrow> set ks \<subseteq> fst ` set c \<Longrightarrow>
   evict_loop ks (Some f) (c, w) = (filter (\<lambda>e. fst e \<notin> set ks) c, fold f ks w)"
proof (induction ks arbitrary: c w)
  case Nil
  then show ?case by simp
next
  case (Cons k ks)
  have sub: "set ks \<subseteq> fst ` set (filter (\<lambda>e. fst e \<noteq> k) c)"
    using Cons.prems by force
  have "evict_loop (k # ks) (Some f) (c, w) = evict_loop ks (Some f) (filter (\<lambda>e. fst e \<noteq> k) c, f k w)"
    using Cons.prems by (simp add: cache_delete_def)
  also have "\<dots> = (filter (\<lambda>e. fst e \<notin> set ks) (filter (\<lambda>e. fst e \<noteq> k) c), fold f ks (f k w))"
    using Cons.prems sub by (simp add: Cons.IH)
  also have "\<dots> = (filter (\<lambda>e. fst e \<notin> set (k # ks)) c, fold f (k # ks) w)"
    by (auto intro: filter_cong)
  finally show ?case .
qed

lemma filter_take_keys:
  "distinct (map fst c) \<Longrightarrow> filter (\<lambda>e. fst e \<notin> set (take k (map fst c))) c = drop k c"
proof (induction c arbitrary: k)
  case Nil
  then show ?case by simp
next
  case (Cons a c)
  show ?case
  proof (cases k)
    case 0
    then show ?thesis by simp
  next
    case (Suc j)
    have "fst a \<notin> fst ` set c"
      using Cons.prems by simp
    then have ne: "fst e \<noteq> fst a" if "e \<in> set c" for e
      using that by (metis imageI)
    have "filter (\<lambda>e. fst e \<notin> set (take j (map fst c)) \<and> fst e \<noteq> fst a) c
        = filter (\<lambda>e. fst e \<notin> set (take j (map fst c))) c"
      by (rule filter_cong) (simp_all add: ne)
    with Cons Suc show ?thesis by (simp add: conj_commute)
  qed
qed

lemma fold_record_call: "fold record_call ks acc = acc @ ks"
  by (induction ks arbitrary: acc) (simp_all add: record_call_def)

lemma evictCache_over_limit:
  assumes "distinct (cache_keys c)" and "L < length c"
  shows "evictCache c (int L) (Some f) w =
           (drop (length c - L) c, fold f (rev (take (length c - L) (cache_keys c))) w)"
proof -
  let ?k = "length c - L"
  let ?ks = "rev (take ?k (cache_keys c))"
  have k: "nat (int (length c) - int L) = ?k"
    using assms(2) by simp
  have d: "distinct ?ks"
    using assms(1) by (simp add: distinct_take)
  have s: "set ?ks \<subseteq> fst ` set c"
    using set_take_subset [of ?k "cache_keys c"] by (simp add: cache_keys_def)
  have "evictCache c (int L) (Some f) w = evict_loop ?ks (Some f) (c, w)"
    using assms(2) by (simp add: evictCache_def Let_def k cache_keys_def)
  also have "\<dots> = (filter (\<lambda>e. fst e \<notin> set ?ks) c, fold f ?ks w)"
    using d s by (rule evict_loop_distinct)
  also have "filter (\<lambda>e. fst e \<notin> set ?ks) c = drop ?k c"
    using assms(1) filter_take_keys [of c ?k] by (simp add: cache_keys_def)
  finally show ?thesis .
qed

lemma evictCache_within_limit: "length c \<le> L \<Longrightarrow> evictCache c (int L) onDelete w = (c, w)"
  by (simp add: evictCache_def Let_def cache_keys_def)

text \<open>
  Claim C2. For a store whose keys, oldest first, are \<open>cache_keys c\<close> (\<open>n\<close> entries, one
  per key) and a size limit \<open>L\<close> with \<open>k = n - L > 0\<close>, \<open>evictCache\<close> deletes exactly the
  \<open>k\<close> oldest entries and leaves the \<open>L\<close> most recent ones as they were; the callback
  \<open>onDelete\<close> is run once for each deleted key and for no other (\<open>k\<close> calls, from the
  newest of the deleted keys back to the oldest). When \<open>n \<le> L\<close> the store is unchanged
  and the callback is not run.
\<close>

theorem evictCache_removes_oldest:
  assumes "distinct (cache_keys c)"
  shows "(L < length c \<longrightarrow>
            evictCache c (int L) (Some f) w =
              (drop (length c - L) c, fold f (rev (take (length c - L) (cache_keys c))) w)
          \<and> cache_keys (fst (evictCache c (int L) (Some f) w)) = drop (length c - L) (cache_keys c)
          \<and> length (fst (evictCache c (int L) (Some f) w)) = L
          \<and> snd (evictCache c (int L) (Some record_call) []) = rev (take (length c - L) (cache_keys c))
          \<and> length (snd (evictCache c (int L) (Some record_call) [])) = length c - L)
       \<and> (length c \<le> L \<longrightarrow> evictCache c (int L) onDelete w = (c, w))"
proof (intro conjI impI)
  assume L: "L < length c"
  show "evictCache c (int L) (Some f) w =
          (drop (length c - L) c, fold f (rev (take (length c - L) (cache_keys c))) w)"
    using assms L by (rule evictCache_over_limit)
  then show "cache_keys (fst (evictCache c (int L) (Some f) w)) = drop (length c - L) (cache_keys c)"
    by (simp add: cache_keys_def drop_map)
  show "length (fst (evictCache c (int L) (Some f) w)) = L"
    using L by (simp add: evictCache_over_limit [OF assms L])
  show "snd (evictCache c (int L) (Some record_call) []) = rev (take (length c - L) (cache_keys c))"
    by (simp add: evictCache_over_limit [OF assms L] fold_record_call)
  show "length (snd (evictCache c (int L) (Some record_call) [])) = length c - L"
    using L by (simp add: evictCache_over_limit [OF assms L] fold_record_call cache_keys_def)
next
  assume "length c \<le> L"
  then show "evictCache c (int L) onDelete w = (c, w)"
    by (rule evictCache_within_limit)
qed

theorem evictCache_removes_oldest_witness:
  "distinct (cache_keys [(''a'', 1::nat), (''b'', 2), (''c'', 3)])
   \<and> evictCache [(''a'', 1::nat), (''b'', 2), (''c'', 3)] 1 (Some record_call) []
       = ([(''c'', 3)], [''b'', ''a''])
   \<and> evictCache [(''a'', 1::nat), (''b'', 2), (''c'', 3)] 3 (Some record_call) [''z'']
       = ([(''a'', 1), (''b'', 2), (''c'', 3)], [''z''])"
proof -
  have d: "distinct (cache_keys [(''a'', 1::nat), (''b'', 2), (''c'', 3)])"
    by (simp add: cache_keys_def)
  show ?thesis
    using d
      evictCache_removes_oldest [OF d, where L = 1 and f = record_call and w = "[]"]
      evictCache_removes_oldest [OF d, where L = 3 and onDelete = "Some record_call"
        and w = "[''z'']"]
    by (simp add: cache_keys_def record_call_def)
qed

section \<open>Properties of the range response builder\<close>

lemma buildResponse_closed_eq:
  assumes "0 < E" and "S < 2 ^ 53" and "E < 2 ^ 53" and "length (body orig) < 2 ^ 53"
  shows "buildResponse orig (Some (''bytes='' @ show_nat S @ ''-'' @ show_nat E)) =
           Inr \<lparr>status = 206, resp_url = [],
                resp_headers =
                  [(''content-range'',
                    ''bytes '' @ show_nat S @ ''-'' @ show_nat E @ ''/''
                      @ show_nat (length (body orig))),
                   (''content-type'', header_text (hget (resp_headers orig) ''content-type''))],
                body = take (E + 1 - S) (drop S (body orig))\<rparr>"
proof -
  have p: "parseRange (''bytes='' @ show_nat S @ ''-'' @ show_nat E) = Inr (Fin S, Some (Fin E))"
    using assms(2,3) by (rule parseRange_both)
  have t: "truthy_number (Some (Fin E))"
    using assms(1) by (simp add: truthy_number_def)
  have n: "round_double (length (body orig)) = Fin (length (body orig))"
    using assms(4) by (simp add: round_double_exact)
  have texts: "toString (Fin S) = show_nat S" "toString (Fin E) = show_nat E"
    "toString (Fin (length (body orig))) = show_nat (length (body orig))"
    using assms(2,3,4) by (simp_all add: toString_exact)
  have sl: "blob_slice (body orig) (Fin S) (Some (plus_one (Fin E)))
              = take (E + 1 - S) (drop S (body orig))"
    using assms(3,4) by (simp add: plus_one_exact blob_slice_closed)
  show ?thesis
    by (simp only: buildResponse_def truthy_string_def option.case option.sel p Let_def n
          sum.case prod.case t if_True texts sl)
       simp
qed

text \<open>
  Two more facts about the builder in that range: the response to a range without an end, and the
  reading of an end of \<open>0\<close> as no end.
\<close>

lemma buildResponse_open_range:
  assumes "S < 2 ^ 53" and "length (body orig) < 2 ^ 53"
  shows "buildResponse orig (Some (''bytes='' @ show_nat S @ ''-'')) =
     Inr \<lparr>status = 206, resp_url = [],
          resp_headers =
            [(''content-range'',
              ''bytes '' @ show_nat S @ ''-''
                @ (if body orig = [] then ''-1'' else show_nat (length (body orig) - 1)) @ ''/''
                @ show_nat (length (body orig))),
             (''content-type'', header_text (hget (resp_headers orig) ''content-type''))],
          body = drop S (body orig)\<rparr>"
proof -
  have p: "parseRange (''bytes='' @ show_nat S @ ''-'') = Inr (Fin S, None)"
    using assms(1) by (rule parseRange_open)
  have n: "round_double (length (body orig)) = Fin (length (body orig))"
    using assms(2) by (simp add: round_double_exact)
  have m: "minus_one_text (Fin (length (body orig)))
             = (if body orig = [] then ''-1'' else show_nat (length (body orig) - 1))"
    using assms(2) by (simp add: minus_one_text_def round_double_exact toString_exact)
  have texts: "toString (Fin S) = show_nat S"
    "toString (Fin (length (body orig))) = show_nat (length (body orig))"
    using assms by (simp_all add: toString_exact)
  have f: "\<not> truthy_number None"
    by (simp add: truthy_number_def)
  have sl: "blob_slice (body orig) (Fin S) None = drop S (body orig)"
    using assms(2) by (rule blob_slice_open)
  show ?thesis
    by (simp only: buildResponse_def truthy_string_def option.case option.sel p Let_def n
          sum.case prod.case f if_False texts sl m)
       simp
qed

lemma buildResponse_end_zero:
  assumes "S < 2 ^ 53"
  shows "buildResponse orig (Some (''bytes='' @ show_nat S @ ''-'' @ show_nat 0)) =
     buildResponse orig (Some (''bytes='' @ show_nat S @ ''-''))"
proof -
  have p0: "parseRange (''bytes='' @ show_nat S @ ''-'' @ show_nat 0) = Inr (Fin S, Some (Fin 0))"
    using assms by (intro parseRange_both) simp_all
  have p: "parseRange (''bytes='' @ show_nat S @ ''-'') = Inr (Fin S, None)"
    using assms by (rule parseRange_open)
  have f: "\<not> truthy_number None" "\<not> truthy_number (Some (Fin 0))"
    by (simp_all add: truthy_number_def)
  show ?thesis
    by (simp only: buildResponse_def truthy_string_def option.case option.sel p p0 Let_def
          sum.case prod.case f if_False)
       simp
qed

lemma show_nat_small:
  "show_nat 0 = ''0''" "show_nat (Suc 0) = ''1''" "show_nat 2 = ''2''" "show_nat 3 = ''3''"
  "show_nat 5 = ''5''" "show_nat 6 = ''6''" "show_nat 9 = ''9''"
  "show_nat (Suc (Suc (Suc (Suc (Suc 0))))) = ''5''"
  "show_nat (Suc (Suc (Suc (Suc (Suc (Suc 0)))))) = ''6''"
  by code_simp+

lemma sample_audio_body: "body sample_audio = ''abcdef''" "length (body sample_audio) = 6"
  "hget (resp_headers sample_audio) ''content-type'' = Some ''audio/mpeg''"
  by (simp_all add: sample_audio_def hget_def)

text \<open>
  Claim C3, as the code has it. Let the body of the full response have \<open>N\<close> bytes and let
  the header be \<open>bytes=S-E\<close> with \<open>E \<ge> 1\<close>, where \<open>S\<close>, \<open>E\<close> and \<open>N\<close> are below \<open>2 ^ 53\<close>,
  the range in which a JavaScript number holds every integer exactly. Then \<open>buildResponse\<close>
  answers with status 206, the header \<open>Content-Range: bytes S-E/N\<close>, the content type of the
  original response, and the bytes of the body from position \<open>S\<close> up to and including
  position \<open>E\<close>, as far as the body reaches: these are \<open>E - S + 1\<close> bytes when
  \<open>S \<le> E < N\<close>.
\<close>

theorem buildResponse_closed_range:
  assumes "0 < E" and "S < 2 ^ 53" and "E < 2 ^ 53" and "length (body orig) < 2 ^ 53"
  shows "buildResponse orig (Some (''bytes='' @ show_nat S @ ''-'' @ show_nat E)) =
           Inr \<lparr>status = 206, resp_url = [],
                resp_headers =
                  [(''content-range'',
                    ''bytes '' @ show_nat S @ ''-'' @ show_nat E @ ''/''
                      @ show_nat (length (body orig))),
                   (''content-type'', header_text (hget (resp_headers orig) ''content-type''))],
                body = take (E + 1 - S) (drop S (body orig))\<rparr>
         \<and> (S \<le> E \<and> E < length (body orig) \<longrightarrow>
              length (take (E + 1 - S) (drop S (body orig))) = E - S + 1)
         \<and> (hget (resp_headers orig) ''content-type'' = Some ct \<longrightarrow>
              (case buildResponse orig (Some (''bytes='' @ show_nat S @ ''-'' @ show_nat E)) of
                 Inl x \<Rightarrow> False
               | Inr r \<Rightarrow> hget (resp_headers r) ''content-type'' = Some ct))"
proof -
  let ?r = "buildResponse orig (Some (''bytes='' @ show_nat S @ ''-'' @ show_nat E))"
  have eq: "?r =
           Inr \<lparr>status = 206, resp_url = [],
                resp_headers =
                  [(''content-range'',
                    ''bytes '' @ show_nat S @ ''-'' @ show_nat E @ ''/''
                      @ show_nat (length (body orig))),
                   (''content-type'', header_text (hget (resp_headers orig) ''content-type''))],
                body = take (E + 1 - S) (drop S (body orig))\<rparr>"
    using assms by (rule buildResponse_closed_eq)
  have len: "length (take (E + 1 - S) (drop S (body orig))) = E - S + 1"
    if "S \<le> E \<and> E < length (body orig)"
    using that by (auto simp: min_def)
  have ct: "case ?r of Inl x \<Rightarrow> False | Inr r \<Rightarrow> hget (resp_headers r) ''content-type'' = Some ct"
    if "hget (resp_headers orig) ''content-type'' = Some ct"
    using that unfolding eq by (simp add: header_text_def hget_def)
  show ?thesis
    using eq len ct by blast
qed

theorem buildResponse_closed_range_witness:
  "(0::nat) < 3 \<and> (1::nat) < 2 ^ 53 \<and> (3::nat) < 2 ^ 53 \<and> length (body sample_audio) < 2 ^ 53
   \<and> buildResponse sample_audio (Some ''bytes=1-3'') =
       Inr \<lparr>status = 206, resp_url = [],
            resp_headers = [(''content-range'', ''bytes 1-3/6''), (''content-type'', ''audio/mpeg'')],
            body = ''bcd''\<rparr>"
proof -
  have h: "(0::nat) < 3" by simp
  have s: "(1::nat) < 2 ^ 53" by simp
  have e: "(3::nat) < 2 ^ 53" by simp
  have n: "length (body sample_audio) < 2 ^ 53" by (simp add: sample_audio_body)
  have r: "buildResponse sample_audio (Some (''bytes='' @ show_nat 1 @ ''-'' @ show_nat 3)) =
       Inr \<lparr>status = 206, resp_url = [],
            resp_headers = [(''content-range'', ''bytes 1-3/6''), (''content-type'', ''audio/mpeg'')],
            body = ''bcd''\<rparr>"
    using buildResponse_closed_range [OF h s e n, of "''audio/mpeg''", THEN conjunct1]
    by (simp add: show_nat_small sample_audio_body header_text_def)
  show ?thesis
    using h n r by (simp add: show_nat_small)
qed

text \<open>
  Claim C3 as stated fails on two inputs of a body of six bytes. For \<open>bytes=0-0\<close> the end
  \<open>0\<close> is falsy, so the builder takes it for absent: it reports \<open>bytes 0-5/6\<close> and sends
  the whole body instead of its first byte. For \<open>bytes=2-9\<close> the slice stops at the end of
  the body and has four bytes, not \<open>9 - 2 + 1\<close>.
\<close>

theorem buildResponse_range_counterexample:
  "buildResponse sample_audio (Some ''bytes=0-0'') =
       Inr \<lparr>status = 206, resp_url = [],
            resp_headers = [(''content-range'', ''bytes 0-5/6''), (''content-type'', ''audio/mpeg'')],
            body = ''abcdef''\<rparr>
   \<and> buildResponse sample_audio (Some ''bytes=2-9'') =
       Inr \<lparr>status = 206, resp_url = [],
            resp_headers = [(''content-range'', ''bytes 2-9/6''), (''content-type'', ''audio/mpeg'')],
            body = ''cdef''\<rparr>
   \<and> ''bytes 0-5/6'' \<noteq> ''bytes 0-0/6''
   \<and> ''abcdef'' \<noteq> take (0 + 1 - 0) (drop 0 ''abcdef'')
   \<and> length ''cdef'' \<noteq> 9 - 2 + (1::nat)"
proof -
  have n: "length (body sample_audio) < 2 ^ 53" by (simp add: sample_audio_body)
  have z: "buildResponse sample_audio (Some (''bytes='' @ show_nat 0 @ ''-'' @ show_nat 0)) =
       Inr \<lparr>status = 206, resp_url = [],
            resp_headers = [(''content-range'', ''bytes 0-5/6''), (''content-type'', ''audio/mpeg'')],
            body = ''abcdef''\<rparr>"
  proof -
    have "buildResponse sample_audio (Some (''bytes='' @ show_nat 0 @ ''-'' @ show_nat 0)) =
          buildResponse sample_audio (Some (''bytes='' @ show_nat 0 @ ''-''))"
      by (rule buildResponse_end_zero) simp
    then show ?thesis
      using buildResponse_open_range [OF _ n, of 0]
      by (simp add: show_nat_small sample_audio_body header_text_def)
  qed
  have c: "buildResponse sample_audio (Some (''bytes='' @ show_nat 2 @ ''-'' @ show_nat 9)) =
       Inr \<lparr>status = 206, resp_url = [],
            resp_headers = [(''content-range'', ''bytes 2-9/6''), (''content-type'', ''audio/mpeg'')],
            body = ''cdef''\<rparr>"
    using buildResponse_closed_eq [OF _ _ _ n, of 9 2]
    by (simp add: show_nat_small sample_audio_body header_text_def)
  show ?thesis
    using z c by (simp add: show_nat_small)
qed

text \<open>
  Outside the range of the theorem the builder answers with the rounded numbers: an end of
  \<open>9007199254740993\<close> is reported as \<open>9007199254740992\<close>, and a start of \<open>10 ^ 21\<close> as
  \<open>1e+21\<close>.
\<close>

lemma parseRange_examples:
  "parseRange ''bytes=0-9007199254740993'' = Inr (Fin 0, Some (Fin 9007199254740992))"
  "parseRange ''bytes=1000000000000000000000-5'' = Inr (Fin 1000000000000000000000, Some (Fin 5))"
  by (simp_all add: parseRange_def is_digit_def Let_def Number_rounds_to_even
      Number_of_sextillion Number_small)

lemma buildResponse_beyond_exact_integers:
  "buildResponse sample_audio (Some ''bytes=0-9007199254740993'') =
     Inr \<lparr>status = 206, resp_url = [],
          resp_headers =
            [(''content-range'', ''bytes 0-9007199254740992/6''),
             (''content-type'', ''audio/mpeg'')],
          body = ''abcdef''\<rparr>"
  "buildResponse sample_audio (Some ''bytes=1000000000000000000000-5'') =
     Inr \<lparr>status = 206, resp_url = [],
          resp_headers =
            [(''content-range'', ''bytes 1e+21-5/6''), (''content-type'', ''audio/mpeg'')],
          body = []\<rparr>"
proof -
  have n: "round_double (length (body sample_audio)) = Fin 6"
    by (simp add: sample_audio_body round_double_def)
  have t: "truthy_number (Some (Fin 9007199254740992))" "truthy_number (Some (Fin 5))"
    by (simp_all add: truthy_number_def)
  have s1: "blob_slice (body sample_audio) (Fin 0) (Some (plus_one (Fin 9007199254740992)))
              = ''abcdef''"
    by (simp add: plus_one_at_limit blob_slice_def clamp_long_long_def sample_audio_body)
  have s2: "blob_slice (body sample_audio) (Fin 1000000000000000000000) (Some (plus_one (Fin 5)))
              = []"
    by (simp add: plus_one_exact blob_slice_def clamp_long_long_def sample_audio_body)
  have c: "header_text (hget (resp_headers sample_audio) ''content-type'') = ''audio/mpeg''"
    by (simp add: sample_audio_body header_text_def)
  show "buildResponse sample_audio (Some ''bytes=0-9007199254740993'') =
     Inr \<lparr>status = 206, resp_url = [],
          resp_headers =
            [(''content-range'', ''bytes 0-9007199254740992/6''),
             (''content-type'', ''audio/mpeg'')],
          body = ''abcdef''\<rparr>"
    by (simp only: buildResponse_def truthy_string_def option.case option.sel
          parseRange_examples Let_def n sum.case prod.case t if_True toString_small s1 c)
       simp
  show "buildResponse sample_audio (Some ''bytes=1000000000000000000000-5'') =
     Inr \<lparr>status = 206, resp_url = [],
          resp_headers =
            [(''content-range'', ''bytes 1e+21-5/6''), (''content-type'', ''audio/mpeg'')],
          body = []\<rparr>"
    by (simp only: buildResponse_def truthy_string_def option.case option.sel
          parseRange_examples Let_def n sum.case prod.case t if_True toString_small
          toString_sextillion s2 c)
       simp
qed

section \<open>Properties of the request queue\<close>

lemma findIndex_lower: "- 1 \<le> findIndex p xs"
  by (induction xs) (auto simp: Let_def)

lemma findIndex_none: "(findIndex p xs < 0) = (\<forall>x \<in> set xs. \<not> p x)"
  using findIndex_lower [of p] by (induction xs) (auto simp: Let_def)

lemma findIndex_none_eq: "\<forall>x \<in> set xs. \<not> p x \<Longrightarrow> findIndex p xs = - 1"
  using findIndex_none [of p xs] findIndex_lower [of p xs] by simp

lemma findIndex_last: "\<forall>x \<in> set xs. \<not> p x \<Longrightarrow> p y \<Longrightarrow> findIndex p (xs @ [y]) = int (length xs)"
  by (induction xs) (auto simp: Let_def)

lemma has_iff: "has u w = (u \<in> url ` set (queue w))"
proof -
  have "(findIndex (\<lambda>i. url i = u) (queue w) \<ge> 0) = (\<not> (\<forall>i \<in> set (queue w). url i \<noteq> u))"
    using findIndex_none [of "\<lambda>i. url i = u" "queue w"] by linarith
  then show ?thesis by (auto simp: has_def)
qed

text \<open>
  Claim C4. In every state of the queue, \<open>add\<close> with \<open>isDirect\<close> true calls \<open>abort()\<close> on
  the controller of every item that is marked direct, in the order of the queue, and on
  the controller of no other item: the calls that \<open>add\<close> makes are exactly those of the
  direct items. It then appends the new item. When every item has a controller of its
  own, the controller of an item is called if and only if the item is marked direct.
\<close>

theorem add_direct_cancels_direct_entries:
  "add u a (Some True) pos w =
     w\<lparr>aborted := aborted w @ map abort (filter (\<lambda>i. isDirect i = Some True) (queue w)),
       queue := queue w @ [\<lparr>url = u, abort = a, isDirect = Some True, folderPosition = pos\<rparr>]\<rparr>
   \<and> (distinct (map abort (queue w)) \<longrightarrow>
        (\<forall>i \<in> set (queue w).
           (abort i \<in> set (drop (length (aborted w)) (aborted (add u a (Some True) pos w))))
             = (isDirect i = Some True)))"
proof (intro conjI impI ballI)
  show eq: "add u a (Some True) pos w =
     w\<lparr>aborted := aborted w @ map abort (filter (\<lambda>i. isDirect i = Some True) (queue w)),
       queue := queue w @ [\<lparr>url = u, abort = a, isDirect = Some True, folderPosition = pos\<rparr>]\<rparr>"
    by (simp add: add_def truthy_bool_def Let_def)
  fix i
  assume d: "distinct (map abort (queue w))" and i: "i \<in> set (queue w)"
  have inj: "inj_on abort (set (queue w))"
    using d by (simp add: distinct_map)
  have "(abort i \<in> abort ` {j \<in> set (queue w). isDirect j = Some True}) = (isDirect i = Some True)"
    using inj i by (auto dest: inj_onD)
  then show "(abort i \<in> set (drop (length (aborted w)) (aborted (add u a (Some True) pos w))))
             = (isDirect i = Some True)"
    by (simp add: eq)
qed

theorem add_direct_cancels_direct_entries_witness:
  "distinct (map abort (queue busy))
   \<and> aborted (add ''http://h/e.mp3'' 5 (Some True) None busy) = [1, 3]
   \<and> map isDirect (queue busy) = [Some True, Some False, Some True, None]
   \<and> map abort (queue busy) = [1, 2, 3, 4]
   \<and> map url (queue (add ''http://h/e.mp3'' 5 (Some True) None busy)) =
       [''http://h/a.mp3'', ''http://h/b.mp3'', ''http://h/c.mp3'', ''http://h/d.mp3'',
        ''http://h/e.mp3'']"
proof -
  have d: "distinct (map abort (queue busy))"
    by (simp add: busy_def)
  show ?thesis
    using d add_direct_cancels_direct_entries [of "''http://h/e.mp3''" 5 None busy]
    by (simp add: busy_def)
qed

text \<open>
  Claim C10. In every state of the queue, \<open>add\<close> with \<open>isDirect\<close> false or left out calls
  \<open>abort()\<close> on no controller, and all it does is append the new item at the end of the
  queue: the items that were there are unchanged, as is everything else.
\<close>

theorem add_prefetch_only_appends:
  "add u a (Some False) pos w =
     w\<lparr>queue := queue w @ [\<lparr>url = u, abort = a, isDirect = Some False, folderPosition = pos\<rparr>]\<rparr>
   \<and> add u a None pos w =
     w\<lparr>queue := queue w @ [\<lparr>url = u, abort = a, isDirect = None, folderPosition = pos\<rparr>]\<rparr>
   \<and> aborted (add u a (Some False) pos w) = aborted w
   \<and> aborted (add u a None pos w) = aborted w
   \<and> take (length (queue w)) (queue (add u a (Some False) pos w)) = queue w
   \<and> take (length (queue w)) (queue (add u a None pos w)) = queue w"
  by (simp add: add_def truthy_bool_def Let_def)

theorem add_prefetch_only_appends_witness:
  "aborted (add ''http://h/e.mp3'' 5 (Some False) None busy) = []
   \<and> aborted (add ''http://h/e.mp3'' 5 None None busy) = []
   \<and> queue (add ''http://h/e.mp3'' 5 (Some False) None busy) =
       queue busy
         @ [\<lparr>url = ''http://h/e.mp3'', abort = 5, isDirect = Some False, folderPosition = None\<rparr>]"
  using add_prefetch_only_appends [of "''http://h/e.mp3''" 5 None busy]
  by (simp add: busy_def)

text \<open>
  Claim C9. In every state of the queue, \<open>delete\<close> of a URL that no item has leaves the
  queue, and everything else, unchanged. The operation has no failing branch.
\<close>

theorem delete_absent_url_is_noop:
  assumes "u \<notin> url ` set (queue w)"
  shows "delete u w = w"
proof -
  have "findIndex (\<lambda>i. url i = u) (queue w) = - 1"
    using assms by (intro findIndex_none_eq) auto
  then show ?thesis by (simp add: delete_def)
qed

theorem delete_absent_url_is_noop_witness:
  "''http://h/z.mp3'' \<notin> url ` set (queue busy) \<and> delete ''http://h/z.mp3'' busy = busy"
proof -
  have h: "''http://h/z.mp3'' \<notin> url ` set (queue busy)"
    by (simp add: busy_def)
  show ?thesis
    using h delete_absent_url_is_noop [OF h] by simp
qed

section \<open>Properties of the audio cache controller\<close>

lemma handleRequest_miss_queued:
  assumes "store w = Some c"
    and "cache_match c (req_url req) = None"
    and "has (removeQuery e (req_url req)) w"
  shows "handleRequest e sizeLimit req w =
           (case fetch e \<lparr>call_request = req, call_signal = None\<rparr> of
              Inl x \<Rightarrow> sw_error_response
            | Inr resp \<Rightarrow> resp,
            w\<lparr>fetches := fetches w @ [\<lparr>call_request = req, call_signal = None\<rparr>]\<rparr>)"
  using assms by (simp add: handleRequest_def Let_def issue_def split: sum.splits)

lemma normalised_miss:
  assumes "\<forall>k \<in> set (cache_keys c). removeQuery e k = k"
    and "cache_match c (removeQuery e u) = None"
  shows "cache_match c u = None"
proof (rule ccontr)
  assume "cache_match c u \<noteq> None"
  then obtain r where r: "map_of c u = Some r"
    by (auto simp: cache_match_def)
  then have "u \<in> set (cache_keys c)"
    by (auto simp: cache_keys_def dest: map_of_SomeD intro: rev_image_eqI)
  with assms(1) have "removeQuery e u = u" by simp
  with assms(2) r show False by (simp add: cache_match_def)
qed

text \<open>
  Claim C5. Let the cache hold normalised keys only, let the normalised key of the
  request miss the cache and let the queue have an item for that key. Then
  \<open>handleRequest\<close> issues one fetch, of the request as it came and bound to no controller,
  and serves its response as it is (the error response of the handler when the fetch
  rejects); it writes nothing to the cache, adds no item to the queue and broadcasts no
  message.
\<close>

theorem handleRequest_queued_passes_through:
  assumes "store w = Some c"
    and "\<forall>k \<in> set (cache_keys c). removeQuery e k = k"
    and "cache_match c (removeQuery e (req_url req)) = None"
    and "removeQuery e (req_url req) \<in> url ` set (queue w)"
  shows "handleRequest e sizeLimit req w =
           (case fetch e \<lparr>call_request = req, call_signal = None\<rparr> of
              Inl x \<Rightarrow> sw_error_response
            | Inr resp \<Rightarrow> resp,
            w\<lparr>fetches := fetches w @ [\<lparr>call_request = req, call_signal = None\<rparr>]\<rparr>)"
  using assms(1) normalised_miss [OF assms(2,3)] assms(4)
  by (intro handleRequest_miss_queued) (simp_all add: has_iff)

theorem handleRequest_queued_passes_through_witness:
  "store busy = Some [(''http://h/x.mp3'', sample_audio)]
   \<and> cache_match [(''http://h/x.mp3'', sample_audio)]
        (removeQuery (sample_env (Inr sample_audio)) (req_url sample_request)) = None
   \<and> removeQuery (sample_env (Inr sample_audio)) (req_url sample_request) \<in> url ` set (queue busy)
   \<and> handleRequest (sample_env (Inr sample_audio)) 10 sample_request busy =
       (sample_audio,
        busy\<lparr>fetches := [\<lparr>call_request = sample_request, call_signal = None\<rparr>]\<rparr>)"
proof -
  let ?e = "sample_env (Inr sample_audio)"
  let ?c = "[(''http://h/x.mp3'', sample_audio)]"
  have h1: "store busy = Some ?c"
    by (simp add: busy_def)
  have h2: "\<forall>k \<in> set (cache_keys ?c). removeQuery ?e k = k"
    by (simp add: cache_keys_def sample_env_def strip_query_def)
  have h3: "cache_match ?c (removeQuery ?e (req_url sample_request)) = None"
    by (simp add: cache_match_def sample_env_def strip_query_def sample_request_def)
  have h4: "removeQuery ?e (req_url sample_request) \<in> url ` set (queue busy)"
    by (simp add: busy_def sample_env_def strip_query_def sample_request_def)
  have f: "fetches busy = []"
    by (simp add: busy_def)
  have g: "fetch ?e \<lparr>call_request = sample_request, call_signal = None\<rparr> = Inr sample_audio"
    by (simp add: sample_env_def)
  show ?thesis
    using h1 h3 h4 handleRequest_queued_passes_through [OF h1 h2 h3 h4, of 10]
    by (simp add: f g)
qed

text \<open>
  Claim C8. When the queue has an item for the normalised key of a prefetch message,
  \<open>handlePrefetch\<close> broadcasts one \<open>Skipped\<close> message with the key and the original URL
  and does nothing else: no fetch is issued, and the cache and the queue are unchanged.
\<close>

theorem handlePrefetch_queued_is_skipped:
  assumes "removeQuery e (pf_url msg) \<in> url ` set (queue w)"
  shows "handlePrefetch e sizeLimit msg w =
           w\<lparr>broadcasts := broadcasts w
               @ [\<lparr>kind = Skipped, cachedUrl = removeQuery e (pf_url msg),
                   originalUrl = pf_url msg, error = None\<rparr>]\<rparr>"
  using assms by (simp add: handlePrefetch_def Let_def has_iff broadcastMessage_def)

theorem handlePrefetch_queued_is_skipped_witness:
  "removeQuery (sample_env (Inr sample_audio)) ''http://h/b.mp3?t=7'' \<in> url ` set (queue busy)
   \<and> handlePrefetch (sample_env (Inr sample_audio)) 10
        \<lparr>pf_url = ''http://h/b.mp3?t=7'', pf_folderPosition = Some 2\<rparr> busy =
       busy\<lparr>broadcasts :=
              [\<lparr>kind = Skipped, cachedUrl = ''http://h/b.mp3'',
                originalUrl = ''http://h/b.mp3?t=7'', error = None\<rparr>]\<rparr>"
proof -
  let ?e = "sample_env (Inr sample_audio)"
  let ?m = "\<lparr>pf_url = ''http://h/b.mp3?t=7'', pf_folderPosition = Some 2\<rparr>"
  have k: "removeQuery ?e ''http://h/b.mp3?t=7'' = ''http://h/b.mp3''"
    by (simp add: sample_env_def strip_query_def)
  have h: "removeQuery ?e (pf_url ?m) \<in> url ` set (queue busy)"
    by (simp add: k) (simp add: busy_def)
  have b: "broadcasts busy = []"
    by (simp add: busy_def)
  show ?thesis
    using h handlePrefetch_queued_is_skipped [OF h, of 10]
    by (simp add: k b)
qed

subsection \<open>The keys of the store stay normalised\<close>

text \<open>
  Both handlers store under \<open>removeQuery\<close> of a URL. When \<open>removeQuery\<close> leaves its own
  results alone, a store whose keys are all normalised stays so through a run of either
  handler: the premise on the keys of \<open>handleRequest_queued_passes_through\<close> is an
  invariant of the controller.
\<close>

lemma keys_cache_put: "set (cache_keys (cache_put k v c)) \<subseteq> insert k (set (cache_keys c))"
  by (auto simp: cache_put_def cache_keys_def)

lemma keys_evict_loop:
  "set (cache_keys (fst (evict_loop ks onDelete (c, w)))) \<subseteq> set (cache_keys c)"
proof (induction ks arbitrary: c w)
  case Nil
  then show ?case by simp
next
  case (Cons k ks)
  have "set (cache_keys (filter (\<lambda>e. fst e \<noteq> k) c)) \<subseteq> set (cache_keys c)"
    by (auto simp: cache_keys_def)
  with Cons show ?case
    by (fastforce simp: cache_delete_def)
qed

lemma keys_evictCache:
  "set (cache_keys (fst (evictCache c sizeLimit onDelete w))) \<subseteq> set (cache_keys c)"
  using keys_evict_loop [of _ onDelete c w] by (simp add: evictCache_def Let_def)

lemma store_stored:
  "\<exists>c'. store (stored sizeLimit c key resp msg w) = Some c'
         \<and> set (cache_keys c') \<subseteq> insert key (set (cache_keys c))"
proof -
  let ?w1 = "broadcastMessage msg (w\<lparr>store := Some (cache_put key resp c)\<rparr>)"
  obtain c' w2 where e: "evictCache (cache_put key resp c) sizeLimit (Some onDeleted) ?w1 = (c', w2)"
    by (cases "evictCache (cache_put key resp c) sizeLimit (Some onDeleted) ?w1")
  have "set (cache_keys c') \<subseteq> set (cache_keys (cache_put key resp c))"
    using keys_evictCache [of "cache_put key resp c" sizeLimit "Some onDeleted" ?w1] by (simp add: e)
  then have "set (cache_keys c') \<subseteq> insert key (set (cache_keys c))"
    using keys_cache_put [of key resp c] by blast
  then show ?thesis
    using e by (simp add: stored_def Let_def)
qed

lemma store_delete: "store (delete u w) = store w"
  by (simp add: delete_def Let_def)

lemma handleRequest_keeps_keys_normalised:
  assumes idem: "\<And>u. removeQuery e (removeQuery e u) = removeQuery e u"
    and s: "store w = Some c"
    and n: "\<forall>k \<in> set (cache_keys c). removeQuery e k = k"
  shows "\<exists>c'. store (snd (handleRequest e sizeLimit req w)) = Some c'
              \<and> (\<forall>k \<in> set (cache_keys c'). removeQuery e k = k)"
proof -
  let ?k = "removeQuery e (req_url req)"
  have st: "\<exists>c'. store (stored sizeLimit c ?k resp msg w') = Some c'
              \<and> (\<forall>k \<in> set (cache_keys c'). removeQuery e k = k)" for resp msg w'
    using store_stored [of sizeLimit c ?k resp msg w'] n idem by auto
  show ?thesis
    using s n st
    by (auto simp: handleRequest_def Let_def newAbortController_def add_def issue_def
        store_delete split: option.splits sum.splits prod.splits)
qed

lemma handlePrefetch_keeps_keys_normalised:
  assumes idem: "\<And>u. removeQuery e (removeQuery e u) = removeQuery e u"
    and s: "store w = Some c"
    and n: "\<forall>k \<in> set (cache_keys c). removeQuery e k = k"
  shows "\<exists>c'. store (handlePrefetch e sizeLimit msg w) = Some c'
              \<and> (\<forall>k \<in> set (cache_keys c'). removeQuery e k = k)"
proof -
  let ?k = "removeQuery e (pf_url msg)"
  have st: "\<exists>c'. store (stored sizeLimit c ?k resp m w') = Some c'
              \<and> (\<forall>k \<in> set (cache_keys c'). removeQuery e k = k)" for resp m w'
    using store_stored [of sizeLimit c ?k resp m w'] n idem by auto
  show ?thesis
    using s n st
    by (auto simp: handlePrefetch_def Let_def newAbortController_def add_def issue_def
        broadcastMessage_def store_delete split: option.splits sum.splits prod.splits)
qed

subsection \<open>Release of the queue entry\<close>

lemma queue_evict_loop:
  "queue (snd (evict_loop ks (Some onDeleted) (c, w))) = queue w"
  by (induction ks arbitrary: c w)
     (simp_all add: cache_delete_def onDeleted_def broadcastMessage_def)

lemma queue_evictCache: "queue (snd (evictCache c sizeLimit (Some onDeleted) w)) = queue w"
  by (simp add: evictCache_def Let_def queue_evict_loop)

lemma queue_stored: "queue (stored sizeLimit c key resp msg w) = queue w"
proof -
  let ?w1 = "broadcastMessage msg (w\<lparr>store := Some (cache_put key resp c)\<rparr>)"
  obtain c' w2 where e: "evictCache (cache_put key resp c) sizeLimit (Some onDeleted) ?w1 = (c', w2)"
    by (cases "evictCache (cache_put key resp c) sizeLimit (Some onDeleted) ?w1")
  have "queue w2 = queue ?w1"
    using queue_evictCache [of "cache_put key resp c" sizeLimit ?w1] by (simp add: e)
  then show ?thesis
    using e by (simp add: stored_def Let_def broadcastMessage_def)
qed

lemma delete_registered:
  assumes "\<not> has u w"
    and "queue w' = queue w @ [\<lparr>url = u, abort = a, isDirect = d, folderPosition = pos\<rparr>]"
  shows "queue (delete u w') = queue w"
proof -
  have n: "\<forall>i \<in> set (queue w). \<not> url i = u"
    using assms(1) by (auto simp: has_iff)
  have "findIndex (\<lambda>i. url i = u) (queue w') = int (length (queue w))"
    unfolding assms(2) by (rule findIndex_last [OF n]) simp
  then show ?thesis
    using assms(2) by (simp add: delete_def)
qed

lemma handlePrefetch_releases_entry:
  assumes "\<not> has (removeQuery e (pf_url msg)) w"
  shows "queue (handlePrefetch e sizeLimit msg w) = queue w"
proof -
  let ?k = "removeQuery e (pf_url msg)"
  let ?i = "\<lparr>url = ?k, abort = controllers w, isDirect = Some False, folderPosition = pf_folderPosition msg\<rparr>"
  have "\<exists>w'. handlePrefetch e sizeLimit msg w = delete ?k w' \<and> queue w' = queue w @ [?i]"
    using assms
    by (auto simp: handlePrefetch_def Let_def newAbortController_def add_def truthy_bool_def
        issue_def broadcastMessage_def queue_stored split: sum.splits option.splits)
  then show ?thesis
    using delete_registered [OF assms] by auto
qed

lemma handleRequest_releases_entry_after_response:
  assumes "store w = Some c" and "cache_match c (req_url req) = None"
    and "\<not> has (removeQuery e (req_url req)) w"
    and "fetch e \<lparr>call_request = hdelete ''range'' (cloneRequest req), call_signal = Some (controllers w)\<rparr> = Inr resp"
  shows "queue (snd (handleRequest e sizeLimit req w)) = queue w"
proof -
  let ?k = "removeQuery e (req_url req)"
  have "\<exists>w' pos. snd (handleRequest e sizeLimit req w) = delete ?k w'
          \<and> queue w' = queue w @ [\<lparr>url = ?k, abort = controllers w, isDirect = Some True, folderPosition = pos\<rparr>]"
    using assms
    by (auto simp: handleRequest_def Let_def newAbortController_def add_def truthy_bool_def
        issue_def queue_stored split: sum.splits option.splits)
  then show ?thesis
    using delete_registered [OF assms(3)] by auto
qed

lemma handleRequest_keeps_entry_after_rejection:
  assumes "store w = Some c" and "cache_match c (req_url req) = None"
    and "\<not> has (removeQuery e (req_url req)) w"
    and "fetch e \<lparr>call_request = hdelete ''range'' (cloneRequest req), call_signal = Some (controllers w)\<rparr> = Inl x"
  shows "has (removeQuery e (req_url req)) (snd (handleRequest e sizeLimit req w))"
    and "fst (handleRequest e sizeLimit req w) = sw_error_response"
  using assms
  by (auto simp: handleRequest_def Let_def newAbortController_def add_def truthy_bool_def
      issue_def has_iff split: sum.splits option.splits)

text \<open>
  Claim C1 says that the item a handler registers is removed in every outcome. It holds
  for \<open>handlePrefetch\<close> (\<open>handlePrefetch_releases_entry\<close>) and for \<open>handleRequest\<close> once
  the fetch has answered (\<open>handleRequest_releases_entry_after_response\<close>). It fails for
  \<open>handleRequest\<close> when the fetch rejects
  (\<open>handleRequest_keeps_entry_after_rejection\<close>): for a request that is neither cached
  nor queued and a fetch that rejects with a \<open>TypeError\<close>, the handler serves the error
  response and the item stays in the queue, while \<open>handlePrefetch\<close> removes its item in
  the same situation.
\<close>

theorem handleRequest_leaks_queue_entry:
  "handleRequest (sample_env (Inl TypeError)) 10 sample_request idle =
     (sw_error_response,
      idle\<lparr>queue := [\<lparr>url = ''http://h/a.mp3'', abort = 0, isDirect = Some True,
                       folderPosition = None\<rparr>],
           controllers := 1,
           fetches := [\<lparr>call_request =
                          \<lparr>req_url = ''http://h/a.mp3?t=1'', req_headers = [],
                           req_credentials = Include, req_cache = DefaultMode\<rparr>,
                        call_signal = Some 0\<rparr>]\<rparr>)
   \<and> has ''http://h/a.mp3'' (snd (handleRequest (sample_env (Inl TypeError)) 10 sample_request idle))
   \<and> \<not> has ''http://h/a.mp3''
        (handlePrefetch (sample_env (Inl TypeError)) 10
           \<lparr>pf_url = ''http://h/a.mp3?t=1'', pf_folderPosition = None\<rparr> idle)"
  by code_simp

section \<open>Properties of the network-first cache controller\<close>

lemma fallback_cached:
  "fallback e req t w = (case cached_entry w req of Some resp \<Rightarrow> resp | None \<Rightarrow> errorResponse e t)"
  by (simp add: fallback_def cached_entry_def split: option.splits)

text \<open>
  Claim C6, as the code has it. When the controller is enabled and no cached entry
  exists for the request, a response of the network whose status is not 200 (404, say) is
  served as it is, with its own status; the made-up response with status 555 is served
  when the fetch rejects without a response.
\<close>

theorem nf_handleRequest_passes_error_response_through:
  assumes "isEnabled this" and "cached_entry w req = None"
  shows "(fetch e \<lparr>call_request = req, call_signal = None\<rparr> = Inr r \<and> status r \<noteq> 200 \<longrightarrow>
            fst (nf_handleRequest e this req w) = Some r)
       \<and> (fetch e \<lparr>call_request = req, call_signal = None\<rparr> = Inl x \<longrightarrow>
            fst (nf_handleRequest e this req w) =
              Some \<lparr>status = 555, resp_url = [],
                    resp_headers = [(''content-type'', ''text/plain;charset=UTF-8'')],
                    body = ''NetworkFirst Cache Error: '' @ errorText e x\<rparr>)"
proof -
  let ?w1 = "w\<lparr>nf_fetches := nf_fetches w @ [\<lparr>call_request = req, call_signal = None\<rparr>]\<rparr>"
  have c: "cached_entry ?w1 req = None"
    using assms(2) by (simp add: cached_entry_def)
  show ?thesis
    using assms(1) c
    by (simp add: nf_handleRequest_def Let_def fallback_cached errorResponse_def)
qed

theorem nf_handleRequest_passes_error_response_through_witness:
  "isEnabled nf_default \<and> cached_entry nf_idle sample_request = None
   \<and> fst (nf_handleRequest (sample_env (Inr not_found)) nf_default sample_request nf_idle)
       = Some not_found
   \<and> fst (nf_handleRequest (sample_env (Inl TypeError)) nf_default sample_request nf_idle)
       = Some \<lparr>status = 555, resp_url = [],
               resp_headers = [(''content-type'', ''text/plain;charset=UTF-8'')],
               body = ''NetworkFirst Cache Error: failed''\<rparr>"
proof -
  have h1: "isEnabled nf_default"
    by (simp add: nf_default_def)
  have h2: "cached_entry nf_idle sample_request = None"
    by (simp add: cached_entry_def nf_idle_def cache_match_def)
  show ?thesis
    using h1 h2
      nf_handleRequest_passes_error_response_through
        [OF h1 h2, of "sample_env (Inr not_found)" not_found TypeError]
      nf_handleRequest_passes_error_response_through
        [OF h1 h2, of "sample_env (Inl TypeError)" not_found TypeError]
    by (simp add: sample_env_def not_found_def)
qed

text \<open>
  Claim C6 as stated fails: with an empty store and a fetch that answers 404, the handler
  serves the 404 response itself, not a response with status 555.
\<close>

theorem nf_handleRequest_404_counterexample:
  "fst (nf_handleRequest (sample_env (Inr not_found)) nf_default sample_request nf_idle)
     = Some not_found
   \<and> status not_found = 404
   \<and> cached_entry nf_idle sample_request = None
   \<and> fst (nf_handleRequest (sample_env (Inr not_found)) nf_default sample_request nf_idle)
     \<noteq> Some \<lparr>status = 555, resp_url = [],
              resp_headers = [(''content-type'', ''text/plain;charset=UTF-8'')],
              body = ''NetworkFirst Cache Error: failed''\<rparr>
   \<and> map_option status
        (fst (nf_handleRequest (sample_env (Inr not_found)) nf_default sample_request nf_idle))
     \<noteq> Some 555"
  by code_simp

text \<open>
  Claim C7. When the controller is enabled, the fetch fails (it rejects, or it answers
  with a status other than 200) and a cached entry exists for the request, \<open>handleRequest\<close>
  serves that entry; the store is unchanged.
\<close>

theorem nf_handleRequest_serves_cached_on_failure:
  assumes "isEnabled this" and "cached_entry w req = Some cached"
    and "case fetch e \<lparr>call_request = req, call_signal = None\<rparr> of
           Inl x \<Rightarrow> True | Inr r \<Rightarrow> status r \<noteq> 200"
  shows "nf_handleRequest e this req w =
           (Some cached,
            w\<lparr>nf_fetches := nf_fetches w @ [\<lparr>call_request = req, call_signal = None\<rparr>]\<rparr>)"
proof -
  let ?w1 = "w\<lparr>nf_fetches := nf_fetches w @ [\<lparr>call_request = req, call_signal = None\<rparr>]\<rparr>"
  have c: "cached_entry ?w1 req = Some cached"
    using assms(2) by (simp add: cached_entry_def)
  show ?thesis
    using assms(1,3) c
    by (simp add: nf_handleRequest_def Let_def fallback_cached split: sum.splits)
qed

theorem nf_handleRequest_serves_cached_on_failure_witness:
  "isEnabled nf_default \<and> cached_entry nf_warm sample_request = Some sample_audio
   \<and> nf_handleRequest (sample_env (Inr not_found)) nf_default sample_request nf_warm =
       (Some sample_audio,
        nf_warm\<lparr>nf_fetches := [\<lparr>call_request = sample_request, call_signal = None\<rparr>]\<rparr>)
   \<and> nf_handleRequest (sample_env (Inl TypeError)) nf_default sample_request nf_warm =
       (Some sample_audio,
        nf_warm\<lparr>nf_fetches := [\<lparr>call_request = sample_request, call_signal = None\<rparr>]\<rparr>)"
proof -
  have h1: "isEnabled nf_default"
    by (simp add: nf_default_def)
  have h2: "cached_entry nf_warm sample_request = Some sample_audio"
    by (simp add: cached_entry_def nf_warm_def cache_match_def sample_request_def)
  have h3: "case fetch (sample_env (Inr not_found)) \<lparr>call_request = sample_request, call_signal = None\<rparr> of
              Inl x \<Rightarrow> True | Inr r \<Rightarrow> status r \<noteq> 200"
    by (simp add: sample_env_def not_found_def)
  have h4: "case fetch (sample_env (Inl TypeError)) \<lparr>call_request = sample_request, call_signal = None\<rparr> of
              Inl x \<Rightarrow> True | Inr r \<Rightarrow> status r \<noteq> 200"
    by (simp add: sample_env_def)
  have f: "nf_fetches nf_warm = []"
    by (simp add: nf_warm_def)
  show ?thesis
    using h1 h2
      nf_handleRequest_serves_cached_on_failure [OF h1 h2 h3]
      nf_handleRequest_serves_cached_on_failure [OF h1 h2 h4]
    by (simp add: f)
qed

end
